theory Spec2Isabelle
  imports Main
begin

section \<open>JavaScript strings and values\<close>

text \<open>
  A JavaScript string is a sequence of UTF-16 code units; the regular expressions of the
  service carry no \<open>u\<close> flag, so they, \<open>split\<close> and \<open>trim\<close> all work on code units.
  A code unit is modelled as a natural number, and \<open>str\<close> embeds an ASCII literal.
\<close>

type_synonym jstring = "nat list"

definition str :: "string \<Rightarrow> jstring" where
  "str s = map of_char s"

text \<open>
  \<open>isSpace\<close> is the class \<open>\s\<close> of a regular expression, which is also the set that
  \<open>String.prototype.trim\<close> strips: the WhiteSpace and LineTerminator code points of ECMAScript
  (TAB, LF, VT, FF, CR, SP, NBSP, U+1680, U+2000 to U+200A, U+2028, U+2029, U+202F, U+205F,
  U+3000, U+FEFF). \<open>isWord\<close> is the class \<open>\w\<close>: ASCII letters, digits and underscore.
\<close>

definition isSpace :: "nat \<Rightarrow> bool" where
  "isSpace c \<longleftrightarrow>
     (9 \<le> c \<and> c \<le> 13) \<or> c = 32 \<or> c = 160 \<or> c = 5760 \<or> (8192 \<le> c \<and> c \<le> 8202) \<or>
     c = 8232 \<or> c = 8233 \<or> c = 8239 \<or> c = 8287 \<or> c = 12288 \<or> c = 65279"

definition isWord :: "nat \<Rightarrow> bool" where
  "isWord c \<longleftrightarrow>
     (48 \<le> c \<and> c \<le> 57) \<or> (65 \<le> c \<and> c \<le> 90) \<or> c = 95 \<or> (97 \<le> c \<and> c \<le> 122)"

text \<open>\<open>s.trim()\<close>: strip the leading and the trailing run of white space.\<close>

definition trim :: "jstring \<Rightarrow> jstring" where
  "trim s = rev (dropWhile isSpace (rev (dropWhile isSpace s)))"

text \<open>
  \<open>s.split(sep)\<close> for a separator of one code unit. The result always has at least one
  piece: \<open>"".split("-")\<close> is \<open>[""]\<close>.
\<close>

fun split_on :: "nat \<Rightarrow> jstring \<Rightarrow> jstring list" where
  "split_on sep [] = [[]]"
| "split_on sep (c # cs) =
     (if c = sep then [] # split_on sep cs
      else (case split_on sep cs of
              [] \<Rightarrow> [[c]]
            | piece # pieces \<Rightarrow> (c # piece) # pieces))"

text \<open>
  The values a field can hold. The request body is parsed JSON, so a field is \<open>undefined\<close>
  (key missing), \<open>null\<close>, a boolean, a number, a string, or an array or object.
  \<^item> \<open>VNum n\<close> is a number whose value is the integer \<open>n\<close>, of magnitude below \<open>2^53\<close>
    (a safe integer), for which \<open>String\<close> gives the decimal digits of \<open>n\<close>; fractions and
    larger magnitudes are doubles printed by the shortest-digits algorithm of the
    language and are not part of this model.
  \<^item> \<open>VObj s\<close> is an array, object or function whose conversion \<open>String(value)\<close> yields \<open>s\<close>;
    it is truthy, its \<open>typeof\<close> is not \<open>'string'\<close>, and it has no callable \<open>trim\<close> or
    \<open>split\<close> property (JSON carries no functions).
\<close>

datatype jsval =
    VUndefined
  | VNull
  | VBool bool
  | VNum int
  | VStr jstring
  | VObj jstring

datatype js_error = TypeError | SyntaxError

fun digits :: "nat \<Rightarrow> jstring" where
  "digits n = (if n < 10 then [48 + n] else digits (n div 10) @ [48 + n mod 10])"

declare digits.simps [simp del]

definition numToString :: "int \<Rightarrow> jstring" where
  "numToString n = (if n < 0 then 45 # digits (nat (- n)) else digits (nat n))"

text \<open>\<open>String(value)\<close>.\<close>

fun toString :: "jsval \<Rightarrow> jstring" where
  "toString VUndefined = str ''undefined''"
| "toString VNull = str ''null''"
| "toString (VBool b) = (if b then str ''true'' else str ''false'')"
| "toString (VNum n) = numToString n"
| "toString (VStr s) = s"
| "toString (VObj s) = s"

text \<open>Truthiness, as tested by \<open>!value\<close> and \<open>value ? a : b\<close>.\<close>

fun truthy :: "jsval \<Rightarrow> bool" where
  "truthy VUndefined = False"
| "truthy VNull = False"
| "truthy (VBool b) = b"
| "truthy (VNum n) = (n \<noteq> 0)"
| "truthy (VStr s) = (s \<noteq> [])"
| "truthy (VObj s) = True"

text \<open>
  A field map is read by \<open>data[key]\<close>; the model is the function from a key to what that
  read returns, \<open>VUndefined\<close> when it finds no property of that name.
\<close>

type_synonym fields = "jstring \<Rightarrow> jsval"

section \<open>The template renderer: \<open>replaceTemplate\<close>\<close>

text \<open>
  One attempt of the pattern \<open>/{{\s*(\w+)\s*}}/\<close> at the start of a string: the captured
  key and the text after the match. The classes \<open>\s\<close> and \<open>\w\<close> are disjoint and neither
  holds a brace, so no shorter choice of a greedy run can rescue a failed attempt: the greedy
  runs decide the match.
\<close>

definition matchToken :: "jstring \<Rightarrow> (jstring \<times> jstring) option" where
  "matchToken s =
     (case s of
        b1 # b2 # r \<Rightarrow>
          if b1 = 123 \<and> b2 = 123 then
            (let r1 = dropWhile isSpace r;
                 key = takeWhile isWord r1;
                 r2 = dropWhile isSpace (dropWhile isWord r1)
             in if key = [] then None
                else (case r2 of
                        e1 # e2 # rest \<Rightarrow> if e1 = 125 \<and> e2 = 125 then Some (key, rest) else None
                      | _ \<Rightarrow> None))
          else None
      | _ \<Rightarrow> None)"

definition listFields :: "jstring list" where
  "listFields =
     [str ''interests'', str ''webinars'', str ''team'', str ''position'', str ''trips'',
      str ''tasks'', str ''leadershipAcademy'']"

text \<open>\<open>line.replace(/^- /, "")\<close>: drop one leading dash-and-space.\<close>

definition stripDash :: "jstring \<Rightarrow> jstring" where
  "stripDash l = (case l of a # b # r \<Rightarrow> if a = 45 \<and> b = 32 then r else l | _ \<Rightarrow> l)"

text \<open>\<open>s.replace(/\n/g, "<br>")\<close>.\<close>

definition newlinesToBr :: "jstring \<Rightarrow> jstring" where
  "newlinesToBr s = concat (map (\<lambda>c. if c = 10 then str ''<br>'' else [c]) s)"

text \<open>The lines of a list-formatted value: split on newline, trim, drop the empty ones.\<close>

definition listLines :: "jsval \<Rightarrow> jstring list" where
  "listLines v = filter (\<lambda>line. line \<noteq> []) (map trim (split_on 10 (toString v)))"

text \<open>The replacement callback of \<open>replaceTemplate\<close>, applied to the captured key.\<close>

definition replacement :: "fields \<Rightarrow> jstring \<Rightarrow> jstring" where
  "replacement data key =
     (let v = data key in
      if v = VUndefined then str ''{{'' @ key @ str ''}}''
      else if key \<in> set listFields then
        (let ls = listLines v in
         if length ls = 1 then str ''<p>'' @ hd ls @ str ''</p>''
         else str ''<ul>'' @
              concat (map (\<lambda>line. str ''<li>'' @ trim (stripDash line) @ str ''</li>'') ls) @
              str ''</ul>'')
      else newlinesToBr (toString v))"

lemma matchToken_shorter: "matchToken s = Some (key, rest) \<Longrightarrow> length rest < length s"
proof -
  assume m: "matchToken s = Some (key, rest)"
  then obtain r where s: "s = 123 # 123 # r"
    by (auto simp: matchToken_def split: list.splits if_splits)
  let ?r2 = "dropWhile isSpace (dropWhile isWord (dropWhile isSpace r))"
  from m s have "?r2 = 125 # 125 # rest"
    by (auto simp: matchToken_def Let_def split: list.splits if_splits)
  moreover have "length ?r2 \<le> length r"
    by (meson length_dropWhile_le order_trans)
  ultimately show ?thesis using s by simp
qed

text \<open>
  \<open>template.replace(/.../g, callback)\<close>: scan from the left; where the pattern matches,
  emit the callback's result and go on after the match; elsewhere copy one code unit.
\<close>

function replaceTemplate :: "jstring \<Rightarrow> fields \<Rightarrow> jstring" where
  "replaceTemplate [] data = []"
| "replaceTemplate (c # cs) data =
     (case matchToken (c # cs) of
        Some (key, rest) \<Rightarrow> replacement data key @ replaceTemplate rest data
      | None \<Rightarrow> c # replaceTemplate cs data)"
  by pat_completeness auto
termination
  by (relation "measure (\<lambda>(t, d). length t)") (auto dest: matchToken_shorter)

declare replaceTemplate.simps(2) [simp del]


text \<open>
  The text of a placeholder: two opening braces, white space, the key, white space, two
  closing braces.
\<close>

definition tokenText :: "jstring \<Rightarrow> jstring \<Rightarrow> jstring \<Rightarrow> jstring" where
  "tokenText ws1 key ws2 = str ''{{'' @ ws1 @ key @ ws2 @ str ''}}''"


section \<open>Date formatting: \<open>formatDate\<close>\<close>

text \<open>
  A destructured array element that does not exist is \<open>undefined\<close>, which a template
  literal prints as the text \<open>undefined\<close>.
\<close>

definition element :: "jstring list \<Rightarrow> nat \<Rightarrow> jstring" where
  "element parts i = (if i < length parts then parts ! i else str ''undefined'')"

text \<open>
  \<open>formatDate\<close> returns the empty string for a falsy argument. Any other argument is
  asked for its \<open>split\<close> method, which only a string has: for the rest the call raises a
  TypeError.
\<close>

definition formatDate :: "jsval \<Rightarrow> js_error + jstring" where
  "formatDate isoDate =
     (if \<not> truthy isoDate then Inr []
      else (case isoDate of
              VStr s \<Rightarrow>
                (let parts = split_on 45 s;
                     year = element parts 0; month = element parts 1; day = element parts 2
                 in Inr (day @ str '' / '' @ month @ str '' / '' @ year))
            | _ \<Rightarrow> Inl TypeError))"

section \<open>The document and the section pruner\<close>

text \<open>
  The loaded page is a forest of elements; an element has an optional \<open>id\<close> attribute and
  children. Tag names, other attributes and text play no part in the pruner.
  \<open>getElementById\<close> returns the first element in document order with the given id, and
  \<open>removeNode\<close> is \<open>element.remove()\<close> on that element: it leaves the document with its
  whole subtree.
\<close>

datatype node = Element "jstring option" "node list"

fun forest_ids :: "node list \<Rightarrow> jstring list" where
  "forest_ids [] = []"
| "forest_ids (Element j cs # rest) =
     (case j of None \<Rightarrow> [] | Some i \<Rightarrow> [i]) @ forest_ids cs @ forest_ids rest"

fun getElementById :: "jstring \<Rightarrow> node list \<Rightarrow> node option" where
  "getElementById i [] = None"
| "getElementById i (Element j cs # rest) =
     (if j = Some i then Some (Element j cs)
      else (case getElementById i cs of
              Some e \<Rightarrow> Some e
            | None \<Rightarrow> getElementById i rest))"

fun removeNode :: "jstring \<Rightarrow> node list \<Rightarrow> node list" where
  "removeNode i [] = []"
| "removeNode i (Element j cs # rest) =
     (if j = Some i then rest
      else (case getElementById i cs of
              Some e \<Rightarrow> Element j (removeNode i cs) # rest
            | None \<Rightarrow> Element j cs # removeNode i rest))"

text \<open>\<open>const el = document.getElementById(id); if (el) el.remove();\<close>\<close>

definition removeById :: "jstring \<Rightarrow> node list \<Rightarrow> node list" where
  "removeById i doc = (case getElementById i doc of None \<Rightarrow> doc | Some e \<Rightarrow> removeNode i doc)"

text \<open>
  The test \<open>!v || v.trim() === ''\<close> that gates the academy, story, team and story-link
  sections. A falsy value is blank; a truthy string is blank when it trims to nothing; any
  other truthy value has no \<open>trim\<close> method and the call raises a TypeError, which ends the
  pruning and the request.
\<close>

definition isBlankText :: "jsval \<Rightarrow> js_error + bool" where
  "isBlankText v =
     (if \<not> truthy v then Inr True
      else (case v of VStr s \<Rightarrow> Inr (trim s = []) | _ \<Rightarrow> Inl TypeError))"

text \<open>
  The test of the chart container:
  \<open>value === undefined || value === null || (typeof value === 'string' && value.trim() === '')\<close>.
\<close>

definition isEmptyPrevious :: "jsval \<Rightarrow> bool" where
  "isEmptyPrevious v \<longleftrightarrow>
     v = VUndefined \<or> v = VNull \<or> (case v of VStr s \<Rightarrow> trim s = [] | _ \<Rightarrow> False)"

definition previousData :: "fields \<Rightarrow> jsval list" where
  "previousData data =
     [data (str ''previousMonths''), data (str ''previousCourses''), data (str ''previousTrips''),
      data (str ''previousVolunteering''), data (str ''previousTasks'')]"

definition hasEmptyPreviousData :: "fields \<Rightarrow> bool" where
  "hasEmptyPreviousData data = list_ex isEmptyPrevious (previousData data)"

definition andThen :: "'e + 'a \<Rightarrow> ('a \<Rightarrow> 'e + 'b) \<Rightarrow> 'e + 'b" where
  "andThen r f = (case r of Inl e \<Rightarrow> Inl e | Inr x \<Rightarrow> f x)"

text \<open>One gated block: when the value is blank, remove the listed ids in order.\<close>

definition removeWhenBlank :: "jsval \<Rightarrow> jstring list \<Rightarrow> node list \<Rightarrow> js_error + node list" where
  "removeWhenBlank v ids doc =
     (case isBlankText v of
        Inl e \<Rightarrow> Inl e
      | Inr blank \<Rightarrow> Inr (if blank then foldl (\<lambda>d i. removeById i d) doc ids else doc))"

definition elementsToRemove :: "jstring list" where
  "elementsToRemove = [str ''team'', str ''position'', str ''team-break-line'', str ''feadback'']"

text \<open>
  The repository holds two copies of the service. \<open>IndexJs\<close> is \<open>src/index.js\<close>;
  \<open>Part000\<close> is the copy with the test mode, the \<open>futurePlans\<close> field and the story
  block. The pruning callbacks differ in the story block only, which \<open>src/index.js\<close> does
  not have.
\<close>

datatype variant = IndexJs | Part000

definition storyBlock :: "variant \<Rightarrow> fields \<Rightarrow> node list \<Rightarrow> js_error + node list" where
  "storyBlock v data doc =
     (case v of
        IndexJs \<Rightarrow> Inr doc
      | Part000 \<Rightarrow> removeWhenBlank (data (str ''storyText'')) [str ''story''] doc)"

text \<open>The blocks gated by a text field, in the order of the source.\<close>

definition pruneTextSections :: "variant \<Rightarrow> fields \<Rightarrow> node list \<Rightarrow> js_error + node list" where
  "pruneTextSections v data doc =
     andThen (removeWhenBlank (data (str ''leadershipAcademy'')) [str ''academy''] doc) (\<lambda>d1.
     andThen (storyBlock v data d1) (\<lambda>d2.
     andThen (removeWhenBlank (data (str ''team'')) elementsToRemove d2) (\<lambda>d3.
     removeWhenBlank (data (str ''storyLink'')) [str ''story-link''] d3)))"

definition chartBlock :: "fields \<Rightarrow> node list \<Rightarrow> node list" where
  "chartBlock data doc =
     (if hasEmptyPreviousData data then removeById (str ''chart-container'') doc else doc)"

text \<open>The whole callback passed to \<open>page.evaluate\<close>.\<close>

definition pruneSections :: "variant \<Rightarrow> fields \<Rightarrow> node list \<Rightarrow> js_error + node list" where
  "pruneSections v data doc =
     andThen (pruneTextSections v data doc) (\<lambda>d4. Inr (chartBlock data d4))"

text \<open>The text fields whose blank test the callback of a variant evaluates.\<close>

definition gatingFields :: "variant \<Rightarrow> jstring list" where
  "gatingFields v =
     (case v of
        IndexJs \<Rightarrow> [str ''leadershipAcademy'', str ''team'', str ''storyLink'']
      | Part000 \<Rightarrow> [str ''leadershipAcademy'', str ''storyText'', str ''team'', str ''storyLink''])"

text \<open>
  Blank as the specification words it: absent, null, or empty after coercion to a string
  and trimming. This definition follows the specification, not the source.
\<close>

definition specBlank :: "jsval \<Rightarrow> bool" where
  "specBlank v \<longleftrightarrow> v = VUndefined \<or> v = VNull \<or> trim (toString v) = []"

text \<open>
  What removal means, stated on its own and not taken from the source: the document
  without the elements whose id is listed, each gone together with its subtree. The
  properties below compare the pruner with it.
\<close>

fun withoutIds :: "jstring list \<Rightarrow> node list \<Rightarrow> node list" where
  "withoutIds ids [] = []"
| "withoutIds ids (Element j cs # rest) =
     (if (case j of None \<Rightarrow> False | Some i \<Rightarrow> i \<in> set ids) then withoutIds ids rest
      else Element j (withoutIds ids cs) # withoutIds ids rest)"

text \<open>The ids the pruning callbacks look up.\<close>

definition sectionIds :: "jstring list" where
  "sectionIds =
     [str ''academy'', str ''story'', str ''team'', str ''position'', str ''team-break-line'',
      str ''feadback'', str ''story-link'', str ''chart-container'']"

section \<open>The request handler of \<open>/upload-pdf\<close>, up to the browser launch\<close>

text \<open>
  What the handler reads from its surroundings.
  \<^item> \<open>TEST_MODE\<close>: the flag of the \<open>Part000\<close> copy (\<open>src/index.js\<close> has none).
  \<^item> \<open>tokens\<close>: the cached credentials, \<open>VNull\<close> until loaded.
  \<^item> \<open>tokens_json\<close>: \<open>None\<close> when the file \<open>tokens.json\<close> does not exist, else what
    reading and parsing it gives: a value, or the SyntaxError of \<open>JSON.parse\<close>.
  \<^item> \<open>template_html\<close>: the text of \<open>template.html\<close>, \<open>None\<close> when the file does not exist.
  \<^item> \<open>inherited\<close>: what a property read finds on \<open>Object.prototype\<close>, for a key that is not
    an own property of the data object.
  \<^item> \<open>now\<close>: the value of \<open>Date.now()\<close>.
\<close>

record server =
  TEST_MODE :: bool
  tokens :: jsval
  tokens_json :: "(js_error + jsval) option"
  template_html :: "jstring option"
  inherited :: fields
  now :: int

datatype reply = Reply nat "(jstring \<times> jsval) list"

text \<open>
  How far the handler gets: it sends a reply, or an exception leaves it uncaught, or it
  reaches \<open>puppeteer.launch\<close> with the rendered HTML and the file name.
\<close>

datatype outcome = Replied reply | Uncaught js_error | Launched jstring jstring

definition authRequired :: "variant \<Rightarrow> server \<Rightarrow> bool" where
  "authRequired v srv = (case v of IndexJs \<Rightarrow> True | Part000 \<Rightarrow> \<not> TEST_MODE srv)"

text \<open>
  \<open>if (!tokens && fs.existsSync("tokens.json")) tokens = JSON.parse(...)\<close>: the value of
  \<open>tokens\<close> afterwards. This statement stands outside the handler's \<open>try\<close>.
\<close>

definition loadTokens :: "server \<Rightarrow> js_error + jsval" where
  "loadTokens srv =
     (if \<not> truthy (tokens srv) then
        (case tokens_json srv of
           None \<Rightarrow> Inr (tokens srv)
         | Some (Inl e) \<Rightarrow> Inl e
         | Some (Inr parsed) \<Rightarrow> Inr parsed)
      else Inr (tokens srv))"

definition templateKeys :: "variant \<Rightarrow> jstring list" where
  "templateKeys v =
     [str ''name'', str ''region'', str ''community'', str ''age'', str ''status'', str ''img'',
      str ''interests'', str ''team'', str ''position'', str ''webinars'', str ''trips'',
      str ''tasks'', str ''leadershipAcademy'', str ''communityActivities'',
      str ''outsideActivities'', str ''feadback'', str ''giverPosition'', str ''giver'',
      str ''previousMonths'', str ''previousCourses'', str ''previousTrips'',
      str ''previousVolunteering'', str ''previousTasks'', str ''currentMonths'',
      str ''currentCourses'', str ''currentTrips'', str ''currentVolunteering'',
      str ''currentTasks''] @
     (case v of IndexJs \<Rightarrow> [] | Part000 \<Rightarrow> [str ''futurePlans'']) @
     [str ''storyImg'', str ''storyTitle'', str ''storyText'', str ''storyLink'']"

text \<open>The object \<open>templateData\<close>, as the function from a key to what reading it gives.\<close>

definition templateData :: "variant \<Rightarrow> server \<Rightarrow> fields \<Rightarrow> jstring \<Rightarrow> fields" where
  "templateData v srv body date key =
     (if key = str ''date'' then VStr date
      else if key \<in> set (templateKeys v) then body key
      else inherited srv key)"

definition pdfFileName :: "server \<Rightarrow> fields \<Rightarrow> jstring" where
  "pdfFileName srv body =
     (let fileName = body (str ''fileName'')
      in if truthy fileName then toString fileName @ str ''.pdf''
         else str ''document-'' @ numToString (now srv) @ str ''.pdf'')"

text \<open>
  The outer \<open>try\<close> block, up to the launch of the browser. The only exception before
  the launch is the TypeError of \<open>formatDate\<close>, raised inside the array destructuring;
  the reply carries its \<open>err.message\<close>, in the wording of V8.
\<close>

definition renderRequest :: "variant \<Rightarrow> server \<Rightarrow> fields \<Rightarrow> outcome" where
  "renderRequest v srv body =
     (case template_html srv of
        None \<Rightarrow> Replied (Reply 400 [(str ''error'', VStr (str ''template.html file not found''))])
      | Some htmlTemplate \<Rightarrow>
          (case formatDate (body (str ''date'')) of
             Inl e \<Rightarrow>
               Replied (Reply 500
                 [(str ''error'',
                   VStr (str ''isoDate.split is not a function or its return value is not iterable''))])
           | Inr date \<Rightarrow>
               Launched (replaceTemplate htmlTemplate (templateData v srv body date))
                        (pdfFileName srv body)))"

text \<open>The handler: the outcome, and the value of \<open>tokens\<close> it leaves behind.\<close>

definition uploadPdf :: "variant \<Rightarrow> server \<Rightarrow> fields \<Rightarrow> outcome \<times> jsval" where
  "uploadPdf v srv body =
     (if authRequired v srv then
        (case loadTokens srv of
           Inl e \<Rightarrow> (Uncaught e, tokens srv)
         | Inr tk \<Rightarrow>
             if \<not> truthy tk then
               (Replied (Reply 401 [(str ''error'', VStr (str ''Not authenticated'')),
                                    (str ''authUrl'', VStr (str ''/auth''))]), tk)
             else (renderRequest v srv body, tk))
      else (renderRequest v srv body, tokens srv))"

section \<open>Concrete inputs\<close>

definition noFields :: fields where
  "noFields = (\<lambda>key. VUndefined)"


definition nullFields :: fields where
  "nullFields = (\<lambda>key. VNull)"

definition sampleDoc :: "node list" where
  "sampleDoc =
     [Element None
        [Element (Some (str ''academy'')) [],
         Element (Some (str ''story'')) [Element (Some (str ''story-link'')) []],
         Element (Some (str ''team'')) [Element (Some (str ''position'')) []],
         Element (Some (str ''feadback'')) [],
         Element (Some (str ''chart-container'')) []]]"

definition allZero :: fields where
  "allZero = (\<lambda>key. VStr (str ''0''))"

definition blankTeam :: fields where
  "blankTeam = allZero (str ''team'' := VStr (str ''  ''))"

definition blankStory :: fields where
  "blankStory = allZero (str ''storyText'' := VNull)"

definition blankPrevious :: fields where
  "blankPrevious = allZero (str ''previousTrips'' := VStr (str ''   ''))"

definition zeroAcademy :: fields where
  "zeroAcademy = allZero (str ''leadershipAcademy'' := VNum 0)"

definition sampleServer :: server where
  "sampleServer =
     \<lparr>TEST_MODE = False, tokens = VNull,
      tokens_json = Some (Inr (VObj (str ''[object Object]''))),
      template_html = None, inherited = noFields, now = 0\<rparr>"

definition twinDoc :: "node list" where
  "twinDoc =
     [Element (Some (str ''team'')) [], Element (Some (str ''story'')) [],
      Element (Some (str ''chart-container'')) [],
      Element (Some (str ''team'')) [], Element (Some (str ''story'')) [],
      Element (Some (str ''chart-container'')) []]"

definition numericAcademy :: fields where
  "numericAcademy = allZero (str ''team'' := VStr (str ''  ''), str ''storyText'' := VNull,
     str ''previousTrips'' := VNull, str ''leadershipAcademy'' := VNum 5)"

definition corruptServer :: server where
  "corruptServer =
     \<lparr>TEST_MODE = False, tokens = VNull, tokens_json = Some (Inl SyntaxError),
      template_html = None, inherited = noFields, now = 0\<rparr>"

section \<open>Properties of the renderer\<close>

lemma word_not_space: "isWord c \<Longrightarrow> \<not> isSpace c"
  by (auto simp: isWord_def isSpace_def)

lemma brace_classes:
  "\<not> isSpace 123" "\<not> isWord 123" "\<not> isSpace 125" "\<not> isWord 125"
  by (simp_all add: isSpace_def isWord_def)

lemma str_braces: "str ''{{'' = [123, 123]" "str ''}}'' = [125, 125]"
  by (simp_all add: str_def)

lemma dropWhile_run: "list_all P ws \<Longrightarrow> dropWhile P (ws @ xs) = dropWhile P xs"
  by (induction ws) auto

lemma takeWhile_run: "list_all P ws \<Longrightarrow> takeWhile P (ws @ xs) = ws @ takeWhile P xs"
  by (induction ws) auto

lemma matchToken_tokenText:
  assumes ws1: "list_all isSpace ws1" and key: "key \<noteq> []" "list_all isWord key"
    and ws2: "list_all isSpace ws2"
  shows "matchToken (tokenText ws1 key ws2 @ rest) = Some (key, rest)"
proof -
  let ?tail = "ws2 @ 125 # 125 # rest"
  obtain k ks where k: "key = k # ks" using key(1) by (cases key) auto
  with key(2) have nk: "\<not> isSpace k" by (simp add: word_not_space)
  have r1: "dropWhile isSpace (ws1 @ key @ ?tail) = key @ ?tail"
    using ws1 nk k by (simp add: dropWhile_run)
  have t2: "takeWhile isWord ?tail = []"
    by (cases ws2) (use ws2 word_not_space in \<open>auto simp: brace_classes\<close>)
  have d2: "dropWhile isWord ?tail = ?tail"
    by (cases ws2) (use ws2 word_not_space in \<open>auto simp: brace_classes\<close>)
  have kk: "takeWhile isWord (key @ ?tail) = key"
    using key(2) t2 by (simp add: takeWhile_run)
  have r2: "dropWhile isSpace (dropWhile isWord (key @ ?tail)) = 125 # 125 # rest"
    using key(2) ws2 d2 by (simp add: dropWhile_run brace_classes)
  show ?thesis
    using key(1) r1 kk r2 by (simp add: matchToken_def tokenText_def str_braces)
qed

lemma matchToken_form:
  assumes "matchToken s = Some (key, rest)"
  shows "\<exists>ws1 ws2. s = tokenText ws1 key ws2 @ rest \<and> list_all isSpace ws1 \<and>
           key \<noteq> [] \<and> list_all isWord key \<and> list_all isSpace ws2"
proof -
  from assms obtain r where s: "s = 123 # 123 # r"
    by (auto simp: matchToken_def split: list.splits if_splits)
  let ?r1 = "dropWhile isSpace r"
  let ?r2 = "dropWhile isWord ?r1"
  from assms s have key: "key = takeWhile isWord ?r1" "key \<noteq> []"
    and r3: "dropWhile isSpace ?r2 = 125 # 125 # rest"
    by (auto simp: matchToken_def Let_def split: list.splits if_splits)
  have E: "takeWhile isSpace r @ key @ takeWhile isSpace ?r2 @ 125 # 125 # rest = r"
    using key(1) r3 by (metis takeWhile_dropWhile_id)
  have A: "list_all isSpace (takeWhile isSpace r)" "list_all isSpace (takeWhile isSpace ?r2)"
    "list_all isWord key"
    by (auto simp: list_all_iff key(1) dest: set_takeWhileD)
  have "s = tokenText (takeWhile isSpace r) key (takeWhile isSpace ?r2) @ rest"
    unfolding s tokenText_def str_braces using E by simp
  with A key(2) show ?thesis by blast
qed

lemma dropWhile_stop: "\<not> P b \<Longrightarrow> dropWhile P (xs @ b # ys) = dropWhile P xs @ b # ys"
  by (induction xs) auto

lemma takeWhile_stop: "\<not> P b \<Longrightarrow> takeWhile P (xs @ b # ys) = takeWhile P xs"
  by (induction xs) auto

lemma matchToken_Some_iff:
  "matchToken s = Some (key, rest) \<longleftrightarrow>
     (\<exists>r. s = 123 # 123 # r \<and> key = takeWhile isWord (dropWhile isSpace r) \<and> key \<noteq> [] \<and>
          dropWhile isSpace (dropWhile isWord (dropWhile isSpace r)) = 125 # 125 # rest)"
proof
  assume m: "matchToken s = Some (key, rest)"
  then obtain r where s: "s = 123 # 123 # r"
    by (auto simp: matchToken_def split: list.splits if_splits)
  from m show "\<exists>r. s = 123 # 123 # r \<and> key = takeWhile isWord (dropWhile isSpace r) \<and> key \<noteq> [] \<and>
          dropWhile isSpace (dropWhile isWord (dropWhile isSpace r)) = 125 # 125 # rest"
    unfolding s by (auto simp: matchToken_def Let_def split: list.splits if_splits)
next
  assume "\<exists>r. s = 123 # 123 # r \<and> key = takeWhile isWord (dropWhile isSpace r) \<and> key \<noteq> [] \<and>
          dropWhile isSpace (dropWhile isWord (dropWhile isSpace r)) = 125 # 125 # rest"
  then show "matchToken s = Some (key, rest)"
    by (auto simp: matchToken_def Let_def)
qed

lemma matchToken_append_Some:
  assumes "matchToken xs = Some (key, rest)"
  shows "matchToken (xs @ 123 # zs) = Some (key, rest @ 123 # zs)"
proof -
  from assms obtain r where xs: "xs = 123 # 123 # r"
    and key: "key = takeWhile isWord (dropWhile isSpace r)" "key \<noteq> []"
    and r2: "dropWhile isSpace (dropWhile isWord (dropWhile isSpace r)) = 125 # 125 # rest"
    unfolding matchToken_Some_iff by blast
  have "xs @ 123 # zs = 123 # 123 # (r @ 123 # zs)"
    by (simp add: xs)
  moreover have "key = takeWhile isWord (dropWhile isSpace (r @ 123 # zs))"
    by (simp add: key(1) dropWhile_stop takeWhile_stop brace_classes)
  moreover have "dropWhile isSpace (dropWhile isWord (dropWhile isSpace (r @ 123 # zs))) =
      125 # 125 # rest @ 123 # zs"
    by (simp add: r2 dropWhile_stop brace_classes)
  ultimately show ?thesis
    using key(2) unfolding matchToken_Some_iff by blast
qed

lemma matchToken_append_None:
  assumes "matchToken xs = None" and "xs \<noteq> []"
  shows "matchToken (xs @ 123 # 123 # zs) = None"
proof (rule ccontr)
  assume "matchToken (xs @ 123 # 123 # zs) \<noteq> None"
  then obtain key rest where "matchToken (xs @ 123 # 123 # zs) = Some (key, rest)"
    by auto
  then obtain r where s: "xs @ 123 # 123 # zs = 123 # 123 # r"
    and key: "key = takeWhile isWord (dropWhile isSpace r)" "key \<noteq> []"
    and r2: "dropWhile isSpace (dropWhile isWord (dropWhile isSpace r)) = 125 # 125 # rest"
    unfolding matchToken_Some_iff by blast
  show False
  proof (cases xs)
    case Nil
    with assms(2) show False by simp
  next
    case (Cons b1 xs1)
    show False
    proof (cases xs1)
      case Nil
      with Cons s have "r = 123 # zs" by simp
      with key show False by (simp add: brace_classes)
    next
      case (Cons b2 r0)
      with \<open>xs = b1 # xs1\<close> s have xs: "xs = 123 # 123 # r0" and r: "r = r0 @ 123 # 123 # zs"
        by simp_all
      let ?q = "dropWhile isSpace (dropWhile isWord (dropWhile isSpace r0))"
      have k0: "key = takeWhile isWord (dropWhile isSpace r0)"
        by (simp add: key(1) r dropWhile_stop takeWhile_stop brace_classes)
      have "?q @ 123 # 123 # zs = 125 # 125 # rest"
        using r2 by (simp add: r dropWhile_stop brace_classes)
      then obtain rest0 where "?q = 125 # 125 # rest0"
        by (cases ?q; cases "tl ?q") auto
      with k0 key(2) xs have "matchToken xs = Some (key, rest0)"
        unfolding matchToken_Some_iff by blast
      with assms(1) show False by simp
    qed
  qed
qed

lemma replaceTemplate_before_braces:
  "replaceTemplate (pre @ 123 # 123 # zs) data =
     replaceTemplate pre data @ replaceTemplate (123 # 123 # zs) data"
proof (induction pre data rule: replaceTemplate.induct)
  case (1 data)
  show ?case by simp
next
  case (2 c cs data)
  show ?case
  proof (cases "matchToken (c # cs)")
    case None
    then have "matchToken ((c # cs) @ 123 # 123 # zs) = None"
      by (rule matchToken_append_None) simp
    with None 2 show ?thesis
      by (simp add: replaceTemplate.simps(2) [of c])
  next
    case (Some m)
    obtain key rest where m: "m = (key, rest)" by (cases m)
    with Some have "matchToken (c # cs) = Some (key, rest)" by simp
    then have "matchToken ((c # cs) @ 123 # 123 # zs) = Some (key, rest @ 123 # 123 # zs)"
      by (rule matchToken_append_Some)
    with Some m 2 show ?thesis
      by (simp add: replaceTemplate.simps(2) [of c])
  qed
qed

lemma replaceTemplate_at_token:
  assumes "list_all isSpace ws1" "key \<noteq> []" "list_all isWord key" "list_all isSpace ws2"
  shows "replaceTemplate (pre @ tokenText ws1 key ws2 @ rest) data =
           replaceTemplate pre data @ replacement data key @ replaceTemplate rest data"
proof -
  have m: "matchToken (tokenText ws1 key ws2 @ rest) = Some (key, rest)"
    using assms by (rule matchToken_tokenText)
  obtain zs where z: "tokenText ws1 key ws2 @ rest = 123 # 123 # zs"
    by (simp add: tokenText_def str_braces)
  have "replaceTemplate (123 # 123 # zs) data = replacement data key @ replaceTemplate rest data"
    using m unfolding z by (simp add: replaceTemplate.simps(2))
  then show ?thesis
    unfolding z by (simp add: replaceTemplate_before_braces)
qed



lemma tokenText_plain_iff: "tokenText ws1 key ws2 = tokenText [] key [] \<longleftrightarrow> ws1 = [] \<and> ws2 = []"
proof
  assume "tokenText ws1 key ws2 = tokenText [] key []"
  then have "length (tokenText ws1 key ws2) = length (tokenText [] key [])" by simp
  then show "ws1 = [] \<and> ws2 = []" by (simp add: tokenText_def)
qed simp

lemma listLines_null: "listLines VNull = [str ''null'']"
  by (simp add: listLines_def str_def trim_def isSpace_def)

lemma newlinesToBr_null: "newlinesToBr (str ''null'') = str ''null''"
  by (simp add: newlinesToBr_def str_def)

lemma split_on_nonempty: "split_on sep s \<noteq> []"
  by (induction s) (auto split: list.splits)

lemma split_on_no_sep: "sep \<notin> set a \<Longrightarrow> split_on sep a = [a]"
  by (induction a) auto

lemma split_on_first: "sep \<notin> set a \<Longrightarrow> split_on sep (a @ sep # rest) = a # split_on sep rest"
  by (induction a) (auto simp: split_on_nonempty split: list.splits)

subsection \<open>Placeholders of absent fields\<close>

text \<open>
  Claim C1, as the code has it. A placeholder whose field reads as \<open>undefined\<close> is not
  blanked: wherever it stands in the template, the renderer emits the two opening braces,
  the key and the two closing braces, and drops the white space that stood inside the
  braces. The emitted text is the original placeholder exactly when the placeholder was
  written without inner white space.
\<close>

theorem absent_field_token:
  assumes "data key = VUndefined"
    and "list_all isSpace ws1" and "key \<noteq> []" and "list_all isWord key" and "list_all isSpace ws2"
  shows "replaceTemplate (pre @ tokenText ws1 key ws2 @ rest) data =
           replaceTemplate pre data @ tokenText [] key [] @ replaceTemplate rest data \<and>
         (tokenText [] key [] = tokenText ws1 key ws2 \<longleftrightarrow> ws1 = [] \<and> ws2 = [])"
proof -
  have "replacement data key = tokenText [] key []"
    using assms(1) by (simp add: replacement_def tokenText_def)
  then show ?thesis
    using replaceTemplate_at_token [OF assms(2-5)] tokenText_plain_iff [of ws1 key ws2]
    by auto
qed

text \<open>The theorem at the template \<open><b>{{ name }}</b> {{name}}\<close> and a map without fields.\<close>

theorem absent_field_token_witness:
  "noFields (str ''name'') = VUndefined \<and> list_all isSpace [32] \<and> str ''name'' \<noteq> [] \<and>
   list_all isWord (str ''name'') \<and>
   replaceTemplate (str ''<b>{{ name }}</b> {{name}}'') noFields = str ''<b>{{name}}</b> {{name}}''"
proof -
  have h: "noFields (str ''name'') = VUndefined" "list_all isSpace [32]" "str ''name'' \<noteq> []"
    "list_all isWord (str ''name'')"
    by (simp_all add: noFields_def isSpace_def isWord_def str_def)
  have t: "str ''<b>{{ name }}</b> {{name}}'' =
      str ''<b>'' @ tokenText [32] (str ''name'') [32] @ str ''</b> {{name}}''"
    by (simp add: tokenText_def str_def)
  have r: "replaceTemplate (str ''<b>'') noFields = str ''<b>''"
    "replaceTemplate (str ''</b> {{name}}'') noFields = str ''</b> {{name}}''"
    by (simp_all add: str_def replaceTemplate.simps(2) matchToken_def isSpace_def isWord_def
        replacement_def noFields_def)
  show ?thesis
    using h absent_field_token [where data = noFields and key = "str ''name''" and ?ws1.0 = "[32]"
        and ?ws2.0 = "[32]" and pre = "str ''<b>''" and rest = "str ''</b> {{name}}''",
        OF h(1) h(2) h(3) h(4) h(2)]
    unfolding t r by (simp add: tokenText_def str_def)
qed

text \<open>
  Claim C1 as stated fails: the placeholder \<open>{{ name }}\<close> of an absent field does not
  stay as it was written, it comes out as \<open>{{name}}\<close>.
\<close>

theorem absent_field_token_counterexample:
  "noFields (str ''name'') = VUndefined \<and>
   replaceTemplate (str ''{{ name }}'') noFields \<noteq> str ''{{ name }}''"
  by (simp add: str_def replaceTemplate.simps(2) matchToken_def isSpace_def isWord_def
      replacement_def noFields_def)


lemma stripDash_prefix: "stripDash (str ''- '' @ l) = l"
  by (simp add: stripDash_def str_def)

subsection \<open>List-formatted fields\<close>



subsection \<open>Fields holding null\<close>

text \<open>
  Claim C10. A placeholder whose field holds \<open>null\<close> is not preserved: only \<open>undefined\<close>
  takes the fallback. The null is converted to the text \<open>null\<close>, which a plain field
  emits as it is and a list-formatted field wraps as the single line \<open><p>null</p>\<close>.
\<close>

theorem null_field_rendering:
  assumes "data key = VNull"
    and "list_all isSpace ws1" and "key \<noteq> []" and "list_all isWord key" and "list_all isSpace ws2"
  shows "replaceTemplate (pre @ tokenText ws1 key ws2 @ rest) data =
           replaceTemplate pre data @
           (if key \<in> set listFields then str ''<p>null</p>'' else str ''null'') @
           replaceTemplate rest data"
proof -
  have "replacement data key = (if key \<in> set listFields then str ''<p>null</p>'' else str ''null'')"
    using assms(1) by (simp add: replacement_def listLines_null newlinesToBr_null) (simp add: str_def)
  then show ?thesis
    using replaceTemplate_at_token [OF assms(2-5)] by simp
qed

text \<open>The theorem at a plain field and at a list-formatted field of a map of nulls.\<close>

theorem null_field_rendering_witness:
  "nullFields (str ''name'') = VNull \<and> nullFields (str ''team'') = VNull \<and>
   replaceTemplate (str ''{{name}}'') nullFields = str ''null'' \<and>
   replaceTemplate (str ''{{team}}'') nullFields = str ''<p>null</p>''"
proof -
  have h: "nullFields (str ''name'') = VNull" "nullFields (str ''team'') = VNull"
    "list_all isSpace []" "str ''name'' \<noteq> []" "list_all isWord (str ''name'')"
    "str ''team'' \<noteq> []" "list_all isWord (str ''team'')"
    by (simp_all add: nullFields_def isWord_def str_def)
  have m: "str ''name'' \<notin> set listFields" "str ''team'' \<in> set listFields"
    by (simp_all add: listFields_def str_def)
  have t: "str ''{{name}}'' = [] @ tokenText [] (str ''name'') [] @ []"
    "str ''{{team}}'' = [] @ tokenText [] (str ''team'') [] @ []"
    by (simp_all add: tokenText_def str_def)
  show ?thesis
    using h(1,2) m
      null_field_rendering [where data = nullFields and key = "str ''name''" and ?ws1.0 = "[]"
        and ?ws2.0 = "[]" and pre = "[]" and rest = "[]", OF h(1) h(3) h(4) h(5) h(3)]
      null_field_rendering [where data = nullFields and key = "str ''team''" and ?ws1.0 = "[]"
        and ?ws2.0 = "[]" and pre = "[]" and rest = "[]", OF h(2) h(3) h(6) h(7) h(3)]
    unfolding t by simp
qed

subsection \<open>Dates\<close>

text \<open>
  Claim C7. \<open>formatDate\<close> maps a date written as year, dash, month, dash, day (three
  parts without a dash) to day, month and year separated by \<open>" / "\<close>, and maps the empty
  string, \<open>undefined\<close> and \<open>null\<close> to the empty string.
\<close>

theorem formatDate_iso:
  assumes "45 \<notin> set year" and "45 \<notin> set month" and "45 \<notin> set day"
  shows "formatDate (VStr (year @ str ''-'' @ month @ str ''-'' @ day)) =
           Inr (day @ str '' / '' @ month @ str '' / '' @ year) \<and>
         formatDate (VStr []) = Inr [] \<and> formatDate VUndefined = Inr [] \<and>
         formatDate VNull = Inr []"
proof -
  have d: "str ''-'' = [45]" by (simp add: str_def)
  have "split_on 45 (year @ 45 # month @ 45 # day) = [year, month, day]"
    using assms by (simp add: split_on_first split_on_no_sep)
  then show ?thesis
    by (simp add: formatDate_def element_def d)
qed

text \<open>The theorem at \<open>2024-03-07\<close>.\<close>

theorem formatDate_iso_witness:
  "45 \<notin> set (str ''2024'') \<and> 45 \<notin> set (str ''03'') \<and> 45 \<notin> set (str ''07'') \<and>
   formatDate (VStr (str ''2024-03-07'')) = Inr (str ''07 / 03 / 2024'')"
proof -
  have h: "45 \<notin> set (str ''2024'')" "45 \<notin> set (str ''03'')" "45 \<notin> set (str ''07'')"
    by (simp_all add: str_def)
  show ?thesis
    using h formatDate_iso [OF h] by (simp add: str_def)
qed

section \<open>Properties of the pruner\<close>

subsection \<open>Removal by id\<close>

text \<open>
  Where an id occurs at most once, looking it up and removing the element found gives the
  document without that id; removals compose, and none of them adds an element.
\<close>

lemma getElementById_None_iff: "getElementById i f = None \<longleftrightarrow> i \<notin> set (forest_ids f)"
  by (induction i f rule: getElementById.induct) (auto split: option.splits)

lemma withoutIds_absent:
  "set ids \<inter> set (forest_ids doc) = {} \<Longrightarrow> withoutIds ids doc = doc"
  by (induction ids doc rule: withoutIds.induct) (auto simp: Int_Un_distrib split: option.splits)

lemma withoutIds_Nil: "withoutIds [] doc = doc"
  by (simp add: withoutIds_absent)

lemma withoutIds_cong_set: "set A = set B \<Longrightarrow> withoutIds A doc = withoutIds B doc"
  by (induction A doc rule: withoutIds.induct) (auto split: option.splits)

lemma withoutIds_twice: "withoutIds B (withoutIds A doc) = withoutIds (A @ B) doc"
  by (induction A doc rule: withoutIds.induct) (auto split: option.splits)

lemma count_withoutIds_le:
  "count_list (forest_ids (withoutIds A doc)) i \<le> count_list (forest_ids doc) i"
  by (induction A doc rule: withoutIds.induct) (auto split: option.splits)

lemma withoutIds_gone: "i \<in> set ids \<Longrightarrow> getElementById i (withoutIds ids doc) = None"
  by (induction ids doc rule: withoutIds.induct) (auto split: option.splits)

lemma unique_withoutIds:
  "\<forall>i\<in>set ids. count_list (forest_ids doc) i \<le> 1 \<Longrightarrow>
   \<forall>i\<in>set ids. count_list (forest_ids (withoutIds X doc)) i \<le> 1"
  using count_withoutIds_le [of X doc] by (meson order_trans)

lemma removeNode_eq_withoutIds:
  "count_list (forest_ids doc) i \<le> 1 \<Longrightarrow> removeNode i doc = withoutIds [i] doc"
proof (induction i doc rule: removeNode.induct)
  case (1 i)
  show ?case by simp
next
  case (2 i j cs rest)
  show ?case
  proof (cases "j = Some i")
    case True
    with 2(3) have "i \<notin> set (forest_ids rest)"
      by (simp add: count_list_0_iff [symmetric])
    then have "withoutIds [i] rest = rest"
      by (simp add: withoutIds_absent)
    with True show ?thesis by simp
  next
    case False
    then have j: "\<not> (case j of None \<Rightarrow> False | Some k \<Rightarrow> k \<in> set [i])"
      by (auto split: option.splits)
    from False 2(3) have c: "count_list (forest_ids cs) i + count_list (forest_ids rest) i \<le> 1"
      by (auto split: option.splits)
    show ?thesis
    proof (cases "getElementById i cs")
      case None
      then have "i \<notin> set (forest_ids cs)"
        by (simp add: getElementById_None_iff)
      then have "withoutIds [i] cs = cs"
        by (simp add: withoutIds_absent)
      moreover have "removeNode i rest = withoutIds [i] rest"
        using 2(1) [OF False None] c by simp
      ultimately show ?thesis
        using False None j by simp
    next
      case (Some e)
      then have "i \<in> set (forest_ids cs)"
        using getElementById_None_iff [of i cs] by auto
      then have "count_list (forest_ids cs) i > 0"
        using count_list_0_iff [of "forest_ids cs" i] by auto
      with c have "count_list (forest_ids rest) i = 0" "count_list (forest_ids cs) i \<le> 1"
        by simp_all
      then have "withoutIds [i] rest = rest" "removeNode i cs = withoutIds [i] cs"
        using 2(2) [OF False Some] by (simp_all add: withoutIds_absent count_list_0_iff)
      then show ?thesis
        using False Some j by simp
    qed
  qed
qed

lemma removeById_eq_withoutIds:
  assumes "count_list (forest_ids doc) i \<le> 1"
  shows "removeById i doc = withoutIds [i] doc"
proof (cases "getElementById i doc")
  case None
  then have "i \<notin> set (forest_ids doc)"
    by (simp add: getElementById_None_iff)
  then have "withoutIds [i] doc = doc"
    by (simp add: withoutIds_absent)
  with None show ?thesis by (simp add: removeById_def)
next
  case (Some e)
  with assms show ?thesis
    by (simp add: removeById_def removeNode_eq_withoutIds)
qed

lemma foldl_removeById_eq_withoutIds:
  "\<forall>i\<in>set ids. count_list (forest_ids doc) i \<le> 1 \<Longrightarrow>
   foldl (\<lambda>d i. removeById i d) doc ids = withoutIds ids doc"
proof (induction ids arbitrary: doc)
  case Nil
  show ?case by (simp add: withoutIds_Nil)
next
  case (Cons a ids)
  have a: "removeById a doc = withoutIds [a] doc"
    using Cons.prems by (simp add: removeById_eq_withoutIds)
  have "\<forall>i\<in>set ids. count_list (forest_ids (withoutIds [a] doc)) i \<le> 1"
    using Cons.prems count_withoutIds_le [of "[a]" doc] by (meson list.set_intros(2) order_trans)
  then have "foldl (\<lambda>d i. removeById i d) (withoutIds [a] doc) ids = withoutIds ids (withoutIds [a] doc)"
    by (rule Cons.IH)
  then show ?case
    by (simp add: a withoutIds_twice)
qed

lemma isBlankText_error: "isBlankText val = Inl e \<Longrightarrow> e = TypeError"
  by (auto simp: isBlankText_def split: if_splits jsval.splits)

lemma removeWhenBlank_eq_withoutIds:
  assumes "isBlankText val \<noteq> Inl TypeError"
    and "\<forall>i\<in>set ids. count_list (forest_ids doc) i \<le> 1"
  shows "removeWhenBlank val ids doc =
           Inr (withoutIds (if isBlankText val = Inr True then ids else []) doc)"
proof (cases "isBlankText val")
  case (Inl e)
  with assms(1) isBlankText_error [OF Inl] show ?thesis by simp
next
  case (Inr b)
  with assms(2) show ?thesis
    by (cases b) (simp_all add: removeWhenBlank_def foldl_removeById_eq_withoutIds withoutIds_Nil)
qed

subsection \<open>The callback as one removal\<close>

text \<open>
  When no blank test raises and the ids of the sections occur at most once in the loaded
  document, the callback returns the document without the sections whose test holds. A
  blank test raises only on a truthy value that is not a string, so the first condition
  says that every text field gating a section is falsy or a string.
\<close>

lemma gatingFields_common:
  "str ''leadershipAcademy'' \<in> set (gatingFields v)" "str ''team'' \<in> set (gatingFields v)"
  "str ''storyLink'' \<in> set (gatingFields v)"
  by (cases v; simp add: gatingFields_def)+

lemma isEmptyPrevious_iff:
  "isEmptyPrevious v \<longleftrightarrow> v = VUndefined \<or> v = VNull \<or> (\<exists>s. v = VStr s \<and> trim s = [])"
  by (cases v) (simp_all add: isEmptyPrevious_def)

lemma hasEmptyPreviousData_iff:
  "hasEmptyPreviousData data \<longleftrightarrow>
     (\<exists>k\<in>{str ''previousMonths'', str ''previousCourses'', str ''previousTrips'',
           str ''previousVolunteering'', str ''previousTasks''}.
        data k = VUndefined \<or> data k = VNull \<or> (\<exists>s. data k = VStr s \<and> trim s = []))"
  unfolding hasEmptyPreviousData_def previousData_def
  by (simp add: isEmptyPrevious_iff)

lemma trim_zero: "trim (str ''0'') = str ''0''" "str ''0'' \<noteq> []"
  by (simp_all add: trim_def str_def isSpace_def)

lemma sectionIds_members:
  "str ''academy'' \<in> set sectionIds" "str ''story'' \<in> set sectionIds"
  "str ''story-link'' \<in> set sectionIds" "str ''chart-container'' \<in> set sectionIds"
  "set elementsToRemove \<subseteq> set sectionIds"
  by (simp_all add: sectionIds_def elementsToRemove_def)

lemma pruneSections_result:
  assumes g: "\<forall>k\<in>set (gatingFields v). isBlankText (data k) \<noteq> Inl TypeError"
    and u: "\<forall>i\<in>set sectionIds. count_list (forest_ids doc) i \<le> 1"
  shows "pruneSections v data doc =
           Inr (withoutIds
                  ((if isBlankText (data (str ''leadershipAcademy'')) = Inr True
                    then [str ''academy''] else []) @
                   (if v = Part000 \<and> isBlankText (data (str ''storyText'')) = Inr True
                    then [str ''story''] else []) @
                   (if isBlankText (data (str ''team'')) = Inr True then elementsToRemove else []) @
                   (if isBlankText (data (str ''storyLink'')) = Inr True
                    then [str ''story-link''] else []) @
                   (if hasEmptyPreviousData data then [str ''chart-container''] else []))
                  doc)"
proof -
  let ?A = "if isBlankText (data (str ''leadershipAcademy'')) = Inr True then [str ''academy''] else []"
  let ?S = "if v = Part000 \<and> isBlankText (data (str ''storyText'')) = Inr True then [str ''story''] else []"
  let ?T = "if isBlankText (data (str ''team'')) = Inr True then elementsToRemove else []"
  let ?L = "if isBlankText (data (str ''storyLink'')) = Inr True then [str ''story-link''] else []"
  let ?C = "if hasEmptyPreviousData data then [str ''chart-container''] else []"
  from g gatingFields_common [of v]
  have gt: "isBlankText (data (str ''leadershipAcademy'')) \<noteq> Inl TypeError"
    "isBlankText (data (str ''team'')) \<noteq> Inl TypeError"
    "isBlankText (data (str ''storyLink'')) \<noteq> Inl TypeError"
    by blast+
  have un: "\<forall>i\<in>set ids. count_list (forest_ids (withoutIds X doc)) i \<le> 1"
    if "set ids \<subseteq> set sectionIds" for ids X
    using unique_withoutIds [OF u, of X] that by blast
  have un0: "\<forall>i\<in>set [str ''academy'']. count_list (forest_ids doc) i \<le> 1"
    using u sectionIds_members(1) by simp
  have s1: "removeWhenBlank (data (str ''leadershipAcademy'')) [str ''academy''] doc =
      Inr (withoutIds ?A doc)"
    using gt(1) un0 by (rule removeWhenBlank_eq_withoutIds)
  have s2: "storyBlock v data (withoutIds ?A doc) = Inr (withoutIds (?A @ ?S) doc)"
  proof (cases v)
    case IndexJs
    then show ?thesis by (simp add: storyBlock_def)
  next
    case Part000
    with g have "isBlankText (data (str ''storyText'')) \<noteq> Inl TypeError"
      by (simp add: gatingFields_def)
    moreover have "\<forall>i\<in>set [str ''story'']. count_list (forest_ids (withoutIds ?A doc)) i \<le> 1"
      using sectionIds_members(2) by (intro un) simp
    ultimately have "removeWhenBlank (data (str ''storyText'')) [str ''story''] (withoutIds ?A doc) =
        Inr (withoutIds (if isBlankText (data (str ''storyText'')) = Inr True then [str ''story''] else [])
               (withoutIds ?A doc))"
      by (rule removeWhenBlank_eq_withoutIds)
    with Part000 show ?thesis
      by (simp add: storyBlock_def withoutIds_twice)
  qed
  have "removeWhenBlank (data (str ''team'')) elementsToRemove (withoutIds (?A @ ?S) doc) =
      Inr (withoutIds ?T (withoutIds (?A @ ?S) doc))"
    using gt(2) sectionIds_members(5) by (intro removeWhenBlank_eq_withoutIds un)
  then have s3: "removeWhenBlank (data (str ''team'')) elementsToRemove (withoutIds (?A @ ?S) doc) =
      Inr (withoutIds ((?A @ ?S) @ ?T) doc)"
    by (simp only: withoutIds_twice)
  have "removeWhenBlank (data (str ''storyLink'')) [str ''story-link''] (withoutIds ((?A @ ?S) @ ?T) doc) =
      Inr (withoutIds ?L (withoutIds ((?A @ ?S) @ ?T) doc))"
    using gt(3) sectionIds_members(3) by (intro removeWhenBlank_eq_withoutIds un) simp_all
  then have s4: "removeWhenBlank (data (str ''storyLink'')) [str ''story-link'']
      (withoutIds ((?A @ ?S) @ ?T) doc) = Inr (withoutIds (((?A @ ?S) @ ?T) @ ?L) doc)"
    by (simp only: withoutIds_twice)
  have "count_list (forest_ids (withoutIds (((?A @ ?S) @ ?T) @ ?L) doc)) (str ''chart-container'') \<le> 1"
    using un [of "[str ''chart-container'']"] sectionIds_members(4) by simp
  then have "removeById (str ''chart-container'') (withoutIds (((?A @ ?S) @ ?T) @ ?L) doc) =
      withoutIds [str ''chart-container''] (withoutIds (((?A @ ?S) @ ?T) @ ?L) doc)"
    by (rule removeById_eq_withoutIds)
  then have s5: "chartBlock data (withoutIds (((?A @ ?S) @ ?T) @ ?L) doc) =
      withoutIds ((((?A @ ?S) @ ?T) @ ?L) @ ?C) doc"
    by (simp add: chartBlock_def withoutIds_twice)
  have "pruneTextSections v data doc = Inr (withoutIds (((?A @ ?S) @ ?T) @ ?L) doc)"
    by (simp only: pruneTextSections_def andThen_def s1 s2 s3 s4 sum.case)
  then have "pruneSections v data doc = Inr (withoutIds ((((?A @ ?S) @ ?T) @ ?L) @ ?C) doc)"
    by (simp only: pruneSections_def andThen_def s5 sum.case)
  then show ?thesis by (simp only: append_assoc)
qed

text \<open>The definitions unfolded to evaluate the pruner on a concrete document.\<close>

lemmas eval_defs = pruneSections_def pruneTextSections_def andThen_def storyBlock_def
  removeWhenBlank_def isBlankText_def removeById_def chartBlock_def hasEmptyPreviousData_def
  previousData_def isEmptyPrevious_def elementsToRemove_def gatingFields_def
  str_def trim_def isSpace_def sampleDoc_def allZero_def

lemmas eval_more = eval_defs sectionIds_def twinDoc_def numericAcademy_def

subsection \<open>The blank tests and the sections they gate\<close>

text \<open>
  Claim C2, as the code has it. When no blank test raises and the ids of the sections occur
  at most once in the loaded document, the pruner returns the document without a set of
  sections, and a section is in that set exactly when its test holds: \<open>academy\<close> for
  \<open>leadershipAcademy\<close>, \<open>story\<close> (in the copy with a story block) for \<open>storyText\<close>, the
  four elements of the team cluster for \<open>team\<close>, \<open>story-link\<close> for \<open>storyLink\<close>, each
  under the text test; \<open>chart-container\<close> when one of the five previous-period values is
  \<open>undefined\<close>, \<open>null\<close> or a string that trims to the empty string. A section whose text
  field holds the number 0 is removed. The two tests themselves:
  \<^item> the text test holds exactly for a falsy value and for a string that trims to the
    empty string, and raises a TypeError exactly on a truthy value that is not a string;
  \<^item> the test of the chart container holds exactly for \<open>undefined\<close>, \<open>null\<close> and a string
    that trims to the empty string; nothing is coerced to a string;
  \<^item> on \<open>undefined\<close>, \<open>null\<close> and strings the text test agrees with the specification's
    notion of blank;
  \<^item> the string \<open>"0"\<close> is blank for neither test, and the number 0 is not blank for the
    chart container but is blank for the text test.
\<close>

theorem blank_tests_gate_sections:
  assumes "\<forall>k\<in>set (gatingFields v). isBlankText (data k) \<noteq> Inl TypeError"
    and "\<forall>i\<in>set sectionIds. count_list (forest_ids doc) i \<le> 1"
  shows "(\<exists>removed.
            set removed \<subseteq> set sectionIds \<and>
            pruneSections v data doc = Inr (withoutIds removed doc) \<and>
            (str ''academy'' \<in> set removed \<longleftrightarrow>
               isBlankText (data (str ''leadershipAcademy'')) = Inr True) \<and>
            (str ''story'' \<in> set removed \<longleftrightarrow>
               v = Part000 \<and> isBlankText (data (str ''storyText'')) = Inr True) \<and>
            (\<forall>i\<in>set elementsToRemove.
               i \<in> set removed \<longleftrightarrow> isBlankText (data (str ''team'')) = Inr True) \<and>
            (str ''story-link'' \<in> set removed \<longleftrightarrow>
               isBlankText (data (str ''storyLink'')) = Inr True) \<and>
            (str ''chart-container'' \<in> set removed \<longleftrightarrow>
               (\<exists>p\<in>set (previousData data).
                  p = VUndefined \<or> p = VNull \<or> (\<exists>s. p = VStr s \<and> trim s = []))) \<and>
            (data (str ''leadershipAcademy'') = VNum 0 \<longrightarrow> str ''academy'' \<in> set removed) \<and>
            (v = Part000 \<and> data (str ''storyText'') = VNum 0 \<longrightarrow> str ''story'' \<in> set removed) \<and>
            (data (str ''team'') = VNum 0 \<longrightarrow> set elementsToRemove \<subseteq> set removed) \<and>
            (data (str ''storyLink'') = VNum 0 \<longrightarrow> str ''story-link'' \<in> set removed)) \<and>
         (isBlankText w = Inr True \<longleftrightarrow> \<not> truthy w \<or> (\<exists>s. w = VStr s \<and> trim s = [])) \<and>
         (isBlankText w = Inl TypeError \<longleftrightarrow> truthy w \<and> (\<forall>s. w \<noteq> VStr s)) \<and>
         (isEmptyPrevious w \<longleftrightarrow> w = VUndefined \<or> w = VNull \<or> (\<exists>s. w = VStr s \<and> trim s = [])) \<and>
         (w = VUndefined \<or> w = VNull \<or> (\<exists>s. w = VStr s) \<longrightarrow> isBlankText w = Inr (specBlank w)) \<and>
         isBlankText (VStr (str ''0'')) = Inr False \<and> \<not> isEmptyPrevious (VStr (str ''0'')) \<and>
         \<not> isEmptyPrevious (VNum 0) \<and> isBlankText (VNum 0) = Inr True"
proof -
  define A where "A = (if isBlankText (data (str ''leadershipAcademy'')) = Inr True
    then [str ''academy''] else [])"
  define S where "S = (if v = Part000 \<and> isBlankText (data (str ''storyText'')) = Inr True
    then [str ''story''] else [])"
  define T where "T = (if isBlankText (data (str ''team'')) = Inr True then elementsToRemove else [])"
  define L where "L = (if isBlankText (data (str ''storyLink'')) = Inr True
    then [str ''story-link''] else [])"
  define C where "C = (if hasEmptyPreviousData data then [str ''chart-container''] else [])"
  define M where "M = A @ S @ T @ L @ C"
  have p: "pruneSections v data doc = Inr (withoutIds M doc)"
    using pruneSections_result [OF assms] by (simp only: M_def A_def S_def T_def L_def C_def)
  have z: "isBlankText (VNum 0) = Inr True"
    by (simp add: isBlankText_def)
  have sub: "set M \<subseteq> set sectionIds"
    by (auto simp: M_def A_def S_def T_def L_def C_def sectionIds_def elementsToRemove_def)
  have a: "str ''academy'' \<in> set M \<longleftrightarrow> isBlankText (data (str ''leadershipAcademy'')) = Inr True"
    by (simp add: M_def A_def S_def T_def L_def C_def elementsToRemove_def str_def)
  have s: "str ''story'' \<in> set M \<longleftrightarrow> v = Part000 \<and> isBlankText (data (str ''storyText'')) = Inr True"
    by (simp add: M_def A_def S_def T_def L_def C_def elementsToRemove_def str_def)
  have t: "\<forall>i\<in>set elementsToRemove. i \<in> set M \<longleftrightarrow> isBlankText (data (str ''team'')) = Inr True"
    by (simp add: M_def A_def S_def T_def L_def C_def elementsToRemove_def str_def)
  have l: "str ''story-link'' \<in> set M \<longleftrightarrow> isBlankText (data (str ''storyLink'')) = Inr True"
    by (simp add: M_def A_def S_def T_def L_def C_def elementsToRemove_def str_def)
  have "str ''chart-container'' \<in> set M \<longleftrightarrow> hasEmptyPreviousData data"
    by (simp add: M_def A_def S_def T_def L_def C_def elementsToRemove_def str_def)
  then have c: "str ''chart-container'' \<in> set M \<longleftrightarrow>
      (\<exists>p\<in>set (previousData data). p = VUndefined \<or> p = VNull \<or> (\<exists>s. p = VStr s \<and> trim s = []))"
    by (simp add: hasEmptyPreviousData_def list_ex_iff isEmptyPrevious_iff)
  have n: "data (str ''leadershipAcademy'') = VNum 0 \<longrightarrow> str ''academy'' \<in> set M"
    "v = Part000 \<and> data (str ''storyText'') = VNum 0 \<longrightarrow> str ''story'' \<in> set M"
    "data (str ''team'') = VNum 0 \<longrightarrow> set elementsToRemove \<subseteq> set M"
    "data (str ''storyLink'') = VNum 0 \<longrightarrow> str ''story-link'' \<in> set M"
    using a s t l z by auto
  have first: "\<exists>removed.
            set removed \<subseteq> set sectionIds \<and>
            pruneSections v data doc = Inr (withoutIds removed doc) \<and>
            (str ''academy'' \<in> set removed \<longleftrightarrow>
               isBlankText (data (str ''leadershipAcademy'')) = Inr True) \<and>
            (str ''story'' \<in> set removed \<longleftrightarrow>
               v = Part000 \<and> isBlankText (data (str ''storyText'')) = Inr True) \<and>
            (\<forall>i\<in>set elementsToRemove.
               i \<in> set removed \<longleftrightarrow> isBlankText (data (str ''team'')) = Inr True) \<and>
            (str ''story-link'' \<in> set removed \<longleftrightarrow>
               isBlankText (data (str ''storyLink'')) = Inr True) \<and>
            (str ''chart-container'' \<in> set removed \<longleftrightarrow>
               (\<exists>p\<in>set (previousData data).
                  p = VUndefined \<or> p = VNull \<or> (\<exists>s. p = VStr s \<and> trim s = []))) \<and>
            (data (str ''leadershipAcademy'') = VNum 0 \<longrightarrow> str ''academy'' \<in> set removed) \<and>
            (v = Part000 \<and> data (str ''storyText'') = VNum 0 \<longrightarrow> str ''story'' \<in> set removed) \<and>
            (data (str ''team'') = VNum 0 \<longrightarrow> set elementsToRemove \<subseteq> set removed) \<and>
            (data (str ''storyLink'') = VNum 0 \<longrightarrow> str ''story-link'' \<in> set removed)"
    by (rule exI [of _ M]) (intro conjI sub p a s t l c n)
  have b1: "isBlankText w = Inr True \<longleftrightarrow> \<not> truthy w \<or> (\<exists>s. w = VStr s \<and> trim s = [])"
    by (cases w) (auto simp: isBlankText_def trim_def)
  have b2: "isBlankText w = Inl TypeError \<longleftrightarrow> truthy w \<and> (\<forall>s. w \<noteq> VStr s)"
    by (cases w) (simp_all add: isBlankText_def)
  have b3: "w = VUndefined \<or> w = VNull \<or> (\<exists>s. w = VStr s) \<longrightarrow> isBlankText w = Inr (specBlank w)"
    by (auto simp: isBlankText_def specBlank_def trim_def)
  have b4: "isBlankText (VStr (str ''0'')) = Inr False" "\<not> isEmptyPrevious (VStr (str ''0''))"
    "\<not> isEmptyPrevious (VNum 0)"
    by (simp_all add: isBlankText_def isEmptyPrevious_def trim_zero)
  show ?thesis
    by (intro conjI first b1 b2 isEmptyPrevious_iff b3 b4 z)
qed

text \<open>
  The theorem at fields that are all \<open>"0"\<close> but for \<open>leadershipAcademy\<close>, which holds the
  number 0: the academy element goes and nothing else; and at a string of three spaces.
\<close>

theorem blank_tests_gate_sections_witness:
  "zeroAcademy (str ''leadershipAcademy'') = VNum 0 \<and>
   pruneSections IndexJs zeroAcademy sampleDoc =
     Inr [Element None
            [Element (Some (str ''story'')) [Element (Some (str ''story-link'')) []],
             Element (Some (str ''team'')) [Element (Some (str ''position'')) []],
             Element (Some (str ''feadback'')) [],
             Element (Some (str ''chart-container'')) []]] \<and>
   (\<exists>removed.
      pruneSections IndexJs zeroAcademy sampleDoc = Inr (withoutIds removed sampleDoc) \<and>
      str ''academy'' \<in> set removed \<and> str ''story'' \<notin> set removed \<and>
      str ''team'' \<notin> set removed \<and> str ''story-link'' \<notin> set removed \<and>
      str ''chart-container'' \<notin> set removed) \<and>
   isBlankText (VStr (str ''   '')) = Inr True \<and> specBlank (VStr (str ''   '')) \<and>
   isEmptyPrevious (VStr (str ''   ''))"
proof -
  have h1: "\<forall>k\<in>set (gatingFields IndexJs). isBlankText (zeroAcademy k) \<noteq> Inl TypeError"
    by (simp add: zeroAcademy_def eval_defs)
  have h2: "\<forall>i\<in>set sectionIds. count_list (forest_ids sampleDoc) i \<le> 1"
    by (simp add: eval_more)
  have e: "isBlankText (zeroAcademy (str ''leadershipAcademy'')) = Inr True"
    "isBlankText (zeroAcademy (str ''team'')) = Inr False"
    "isBlankText (zeroAcademy (str ''storyLink'')) = Inr False"
    "\<not> (\<exists>p\<in>set (previousData zeroAcademy).
          p = VUndefined \<or> p = VNull \<or> (\<exists>s. p = VStr s \<and> trim s = []))"
    "str ''team'' \<in> set elementsToRemove"
    by (simp_all add: zeroAcademy_def eval_defs)
  have o: "zeroAcademy (str ''leadershipAcademy'') = VNum 0"
    "pruneSections IndexJs zeroAcademy sampleDoc =
     Inr [Element None
            [Element (Some (str ''story'')) [Element (Some (str ''story-link'')) []],
             Element (Some (str ''team'')) [Element (Some (str ''position'')) []],
             Element (Some (str ''feadback'')) [],
             Element (Some (str ''chart-container'')) []]]"
    by (simp_all add: zeroAcademy_def eval_defs)
  have s: "specBlank (VStr (str ''   ''))" "trim (str ''   '') = []"
    by (simp_all add: specBlank_def trim_def str_def isSpace_def)
  have t: "isBlankText (VStr (str ''   '')) = Inr True" "isEmptyPrevious (VStr (str ''   ''))"
    using s blank_tests_gate_sections [OF h1 h2, of "VStr (str ''   '')"] by simp_all
  obtain removed where
    "pruneSections IndexJs zeroAcademy sampleDoc = Inr (withoutIds removed sampleDoc)"
    "str ''academy'' \<in> set removed" "str ''story'' \<notin> set removed"
    "str ''team'' \<notin> set removed" "str ''story-link'' \<notin> set removed"
    "str ''chart-container'' \<notin> set removed"
    using blank_tests_gate_sections [OF h1 h2, of "VStr (str ''   '')"] e by auto
  then have r: "\<exists>removed.
      pruneSections IndexJs zeroAcademy sampleDoc = Inr (withoutIds removed sampleDoc) \<and>
      str ''academy'' \<in> set removed \<and> str ''story'' \<notin> set removed \<and>
      str ''team'' \<notin> set removed \<and> str ''story-link'' \<notin> set removed \<and>
      str ''chart-container'' \<notin> set removed"
    by blast
  show ?thesis
    using o r t s(1) by (intro conjI)
qed

text \<open>
  Claim C2 as stated fails: the number 0 is not blank in the specification's sense, yet
  with \<open>leadershipAcademy\<close> holding the number 0 the academy element is removed.
\<close>

theorem numeric_zero_blank_counterexample:
  "zeroAcademy (str ''leadershipAcademy'') = VNum 0 \<and> \<not> specBlank (VNum 0) \<and>
   isBlankText (VNum 0) = Inr True \<and>
   getElementById (str ''academy'') sampleDoc \<noteq> None \<and>
   pruneSections IndexJs zeroAcademy sampleDoc =
     Inr [Element None
            [Element (Some (str ''story'')) [Element (Some (str ''story-link'')) []],
             Element (Some (str ''team'')) [Element (Some (str ''position'')) []],
             Element (Some (str ''feadback'')) [],
             Element (Some (str ''chart-container'')) []]]"
  by (simp add: zeroAcademy_def specBlank_def numToString_def digits.simps [of 0] eval_defs)

subsection \<open>The team cluster\<close>

text \<open>
  Claim C6, as the code has it. In both copies of the pruner, when the value of \<open>team\<close> is
  blank, no blank test of the callback raises and the ids of the sections occur at most
  once in the loaded document, the pruner returns the loaded document without the
  elements \<open>team\<close>, \<open>position\<close>, \<open>team-break-line\<close> and \<open>feadback\<close> and without some of
  the other optional sections, and nothing else is taken away; none of the four ids is
  found afterwards. Nothing is assumed about the values of \<open>position\<close> and \<open>feadback\<close>,
  nor about which of the four elements exist.
\<close>

theorem team_cluster_removed:
  assumes "isBlankText (data (str ''team'')) = Inr True"
    and "\<forall>k\<in>set (gatingFields v). isBlankText (data k) \<noteq> Inl TypeError"
    and "\<forall>i\<in>set sectionIds. count_list (forest_ids doc) i \<le> 1"
  shows "\<exists>others doc'.
           set others \<subseteq> {str ''academy'', str ''story'', str ''story-link'', str ''chart-container''} \<and>
           doc' = withoutIds ([str ''team'', str ''position'', str ''team-break-line'',
                               str ''feadback''] @ others) doc \<and>
           pruneSections v data doc = Inr doc' \<and>
           getElementById (str ''team'') doc' = None \<and>
           getElementById (str ''position'') doc' = None \<and>
           getElementById (str ''team-break-line'') doc' = None \<and>
           getElementById (str ''feadback'') doc' = None"
proof -
  let ?A = "if isBlankText (data (str ''leadershipAcademy'')) = Inr True then [str ''academy''] else []"
  let ?S = "if v = Part000 \<and> isBlankText (data (str ''storyText'')) = Inr True then [str ''story''] else []"
  let ?L = "if isBlankText (data (str ''storyLink'')) = Inr True then [str ''story-link''] else []"
  let ?C = "if hasEmptyPreviousData data then [str ''chart-container''] else []"
  let ?others = "?A @ ?S @ ?L @ ?C"
  let ?four = "[str ''team'', str ''position'', str ''team-break-line'', str ''feadback'']"
  have "pruneSections v data doc = Inr (withoutIds (?A @ ?S @ elementsToRemove @ ?L @ ?C) doc)"
    using pruneSections_result [OF assms(2,3)] assms(1) by simp
  moreover have "withoutIds (?A @ ?S @ elementsToRemove @ ?L @ ?C) doc = withoutIds (?four @ ?others) doc"
    by (rule withoutIds_cong_set) (auto simp: elementsToRemove_def)
  ultimately have p: "pruneSections v data doc = Inr (withoutIds (?four @ ?others) doc)"
    by simp
  have o: "set ?others \<subseteq> {str ''academy'', str ''story'', str ''story-link'', str ''chart-container''}"
    by auto
  have g: "getElementById (str ''team'') (withoutIds (?four @ ?others) doc) = None"
    "getElementById (str ''position'') (withoutIds (?four @ ?others) doc) = None"
    "getElementById (str ''team-break-line'') (withoutIds (?four @ ?others) doc) = None"
    "getElementById (str ''feadback'') (withoutIds (?four @ ?others) doc) = None"
    by (rule withoutIds_gone, simp)+
  from o p g show ?thesis by blast
qed

text \<open>
  The theorem at a document without a \<open>team-break-line\<close> element, and fields where
  \<open>team\<close> is white space while \<open>position\<close> and \<open>feadback\<close> are not blank.
\<close>

theorem team_cluster_removed_witness:
  "isBlankText (blankTeam (str ''team'')) = Inr True \<and>
   isBlankText (blankTeam (str ''position'')) = Inr False \<and>
   isBlankText (blankTeam (str ''feadback'')) = Inr False \<and>
   getElementById (str ''team-break-line'') sampleDoc = None \<and>
   pruneSections Part000 blankTeam sampleDoc =
     Inr [Element None
            [Element (Some (str ''academy'')) [],
             Element (Some (str ''story'')) [Element (Some (str ''story-link'')) []],
             Element (Some (str ''chart-container'')) []]] \<and>
   (\<exists>others doc'.
      set others \<subseteq> {str ''academy'', str ''story'', str ''story-link'', str ''chart-container''} \<and>
      doc' = withoutIds ([str ''team'', str ''position'', str ''team-break-line'',
                          str ''feadback''] @ others) sampleDoc \<and>
      pruneSections Part000 blankTeam sampleDoc = Inr doc' \<and>
      getElementById (str ''team'') doc' = None \<and>
      getElementById (str ''position'') doc' = None \<and>
      getElementById (str ''team-break-line'') doc' = None \<and>
      getElementById (str ''feadback'') doc' = None)"
proof -
  have h1: "isBlankText (blankTeam (str ''team'')) = Inr True"
    by (simp add: blankTeam_def eval_defs)
  have h2: "\<forall>k\<in>set (gatingFields Part000). isBlankText (blankTeam k) \<noteq> Inl TypeError"
    by (simp add: blankTeam_def eval_defs)
  have h3: "\<forall>i\<in>set sectionIds. count_list (forest_ids sampleDoc) i \<le> 1"
    by (simp add: eval_more)
  have o: "isBlankText (blankTeam (str ''position'')) = Inr False"
    "isBlankText (blankTeam (str ''feadback'')) = Inr False"
    "getElementById (str ''team-break-line'') sampleDoc = None"
    "pruneSections Part000 blankTeam sampleDoc =
     Inr [Element None
            [Element (Some (str ''academy'')) [],
             Element (Some (str ''story'')) [Element (Some (str ''story-link'')) []],
             Element (Some (str ''chart-container'')) []]]"
    by (simp_all add: blankTeam_def eval_defs)
  show ?thesis
    using h1 o team_cluster_removed [OF h1 h2 h3] by (intro conjI)
qed

text \<open>
  Claim C6 as stated fails where an earlier blank test raises: with \<open>team\<close> blank and
  \<open>leadershipAcademy\<close> holding the number 5 the callback ends in a TypeError and returns no
  document. And of two elements with the id \<open>team\<close> only the first is removed.
\<close>

theorem team_cluster_counterexample:
  "isBlankText (numericAcademy (str ''team'')) = Inr True \<and>
   numericAcademy (str ''leadershipAcademy'') = VNum 5 \<and>
   getElementById (str ''team'') sampleDoc \<noteq> None \<and>
   pruneSections IndexJs numericAcademy sampleDoc = Inl TypeError \<and>
   pruneSections Part000 numericAcademy sampleDoc = Inl TypeError \<and>
   pruneSections Part000 blankTeam twinDoc =
     Inr [Element (Some (str ''story'')) [], Element (Some (str ''chart-container'')) [],
          Element (Some (str ''team'')) [], Element (Some (str ''story'')) [],
          Element (Some (str ''chart-container'')) []]"
  by (simp add: blankTeam_def eval_more)

subsection \<open>The story section\<close>

text \<open>
  Claim C5, as the code has it. When the value of \<open>storyText\<close> is blank, no blank test of
  the callback raises and the ids of the sections occur at most once in the loaded document:
  the copy of the pruner with a story block returns the loaded document without the element
  \<open>story\<close> (and without some of the other optional sections), so that the id is not found
  afterwards; the pruner of \<open>src/index.js\<close> removes some of the other optional sections only
  and never looks up the id \<open>story\<close>.
\<close>

theorem story_section_by_variant:
  assumes "isBlankText (data (str ''storyText'')) = Inr True"
    and "\<forall>k\<in>set (gatingFields v). isBlankText (data k) \<noteq> Inl TypeError"
    and "\<forall>i\<in>set sectionIds. count_list (forest_ids doc) i \<le> 1"
  shows "\<exists>others doc'.
           set others \<subseteq> {str ''academy'', str ''team'', str ''position'', str ''team-break-line'',
                           str ''feadback'', str ''story-link'', str ''chart-container''} \<and>
           doc' = withoutIds ((case v of IndexJs \<Rightarrow> [] | Part000 \<Rightarrow> [str ''story'']) @ others) doc \<and>
           pruneSections v data doc = Inr doc' \<and>
           (v = Part000 \<longrightarrow> getElementById (str ''story'') doc' = None)"
proof -
  let ?A = "if isBlankText (data (str ''leadershipAcademy'')) = Inr True then [str ''academy''] else []"
  let ?T = "if isBlankText (data (str ''team'')) = Inr True then elementsToRemove else []"
  let ?L = "if isBlankText (data (str ''storyLink'')) = Inr True then [str ''story-link''] else []"
  let ?C = "if hasEmptyPreviousData data then [str ''chart-container''] else []"
  let ?others = "?A @ ?T @ ?L @ ?C"
  let ?story = "case v of IndexJs \<Rightarrow> [] | Part000 \<Rightarrow> [str ''story'']"
  have "pruneSections v data doc = Inr (withoutIds (?A @ ?story @ ?T @ ?L @ ?C) doc)"
    using pruneSections_result [OF assms(2,3)] assms(1) by (cases v) simp_all
  moreover have "withoutIds (?A @ ?story @ ?T @ ?L @ ?C) doc = withoutIds (?story @ ?others) doc"
    by (rule withoutIds_cong_set) auto
  ultimately have p: "pruneSections v data doc = Inr (withoutIds (?story @ ?others) doc)"
    by simp
  have o: "set ?others \<subseteq> {str ''academy'', str ''team'', str ''position'', str ''team-break-line'',
                           str ''feadback'', str ''story-link'', str ''chart-container''}"
    by (auto simp: elementsToRemove_def)
  have g: "v = Part000 \<longrightarrow> getElementById (str ''story'') (withoutIds (?story @ ?others) doc) = None"
    by (auto intro: withoutIds_gone)
  from o p g show ?thesis by blast
qed

text \<open>The theorem, for both copies, at a document with a story element and \<open>storyText\<close> holding null.\<close>

theorem story_section_by_variant_witness:
  "isBlankText (blankStory (str ''storyText'')) = Inr True \<and>
   getElementById (str ''story'') sampleDoc \<noteq> None \<and>
   pruneSections IndexJs blankStory sampleDoc = Inr sampleDoc \<and>
   (\<exists>others doc'.
      set others \<subseteq> {str ''academy'', str ''team'', str ''position'', str ''team-break-line'',
                      str ''feadback'', str ''story-link'', str ''chart-container''} \<and>
      doc' = withoutIds ([str ''story''] @ others) sampleDoc \<and>
      pruneSections Part000 blankStory sampleDoc = Inr doc' \<and>
      getElementById (str ''story'') doc' = None) \<and>
   (\<exists>others doc'.
      set others \<subseteq> {str ''academy'', str ''team'', str ''position'', str ''team-break-line'',
                      str ''feadback'', str ''story-link'', str ''chart-container''} \<and>
      doc' = withoutIds others sampleDoc \<and>
      pruneSections IndexJs blankStory sampleDoc = Inr doc')"
proof -
  have h1: "isBlankText (blankStory (str ''storyText'')) = Inr True"
    by (simp add: blankStory_def eval_defs)
  have h2: "\<forall>k\<in>set (gatingFields Part000). isBlankText (blankStory k) \<noteq> Inl TypeError"
    "\<forall>k\<in>set (gatingFields IndexJs). isBlankText (blankStory k) \<noteq> Inl TypeError"
    by (simp_all add: blankStory_def eval_defs)
  have h3: "\<forall>i\<in>set sectionIds. count_list (forest_ids sampleDoc) i \<le> 1"
    by (simp add: eval_more)
  have o: "getElementById (str ''story'') sampleDoc \<noteq> None"
    "pruneSections IndexJs blankStory sampleDoc = Inr sampleDoc"
    by (simp_all add: blankStory_def eval_defs)
  have p: "\<exists>others doc'.
      set others \<subseteq> {str ''academy'', str ''team'', str ''position'', str ''team-break-line'',
                      str ''feadback'', str ''story-link'', str ''chart-container''} \<and>
      doc' = withoutIds ([str ''story''] @ others) sampleDoc \<and>
      pruneSections Part000 blankStory sampleDoc = Inr doc' \<and>
      getElementById (str ''story'') doc' = None"
    using story_section_by_variant [OF h1 h2(1) h3] by simp
  have i: "\<exists>others doc'.
      set others \<subseteq> {str ''academy'', str ''team'', str ''position'', str ''team-break-line'',
                      str ''feadback'', str ''story-link'', str ''chart-container''} \<and>
      doc' = withoutIds others sampleDoc \<and>
      pruneSections IndexJs blankStory sampleDoc = Inr doc'"
    using story_section_by_variant [OF h1 h2(2) h3] by simp
  show ?thesis
    using h1 o p i by (intro conjI)
qed

text \<open>
  Claim C5 as stated fails for the pruner of \<open>src/index.js\<close>, which has no story block:
  with \<open>storyText\<close> blank, the document comes back with its story element. In the other
  copy it fails where an earlier blank test raises, and of two elements with the id
  \<open>story\<close> only the first is removed.
\<close>

theorem story_kept_index_counterexample:
  "isBlankText (blankStory (str ''storyText'')) = Inr True \<and>
   getElementById (str ''story'') sampleDoc \<noteq> None \<and>
   pruneSections IndexJs blankStory sampleDoc = Inr sampleDoc \<and>
   isBlankText (numericAcademy (str ''storyText'')) = Inr True \<and>
   pruneSections Part000 numericAcademy sampleDoc = Inl TypeError \<and>
   pruneSections Part000 blankStory twinDoc =
     Inr [Element (Some (str ''team'')) [], Element (Some (str ''chart-container'')) [],
          Element (Some (str ''team'')) [], Element (Some (str ''story'')) [],
          Element (Some (str ''chart-container'')) []]"
  by (simp add: blankStory_def eval_more)

subsection \<open>The chart container\<close>

text \<open>
  Claim C4, as the code has it. Call the previous-period data blank when one of
  \<open>previousMonths\<close>, \<open>previousCourses\<close>, \<open>previousTrips\<close>, \<open>previousVolunteering\<close> and
  \<open>previousTasks\<close> is \<open>undefined\<close>, \<open>null\<close> or a string that trims to the empty string.
  When no blank test of the callback raises and the ids of the sections occur at most once
  in the loaded document, the pruner returns the loaded document without some of the other
  optional sections and, exactly when the previous-period data is blank, without the element
  \<open>chart-container\<close>; nothing else is taken away. The data is not blank when all five
  fields are the string \<open>"0"\<close>.
\<close>

theorem chart_container_rule:
  assumes "\<forall>k\<in>set (gatingFields v). isBlankText (data k) \<noteq> Inl TypeError"
    and "\<forall>i\<in>set sectionIds. count_list (forest_ids doc) i \<le> 1"
    and "blank = (\<exists>k\<in>{str ''previousMonths'', str ''previousCourses'', str ''previousTrips'',
                       str ''previousVolunteering'', str ''previousTasks''}.
                    data k = VUndefined \<or> data k = VNull \<or> (\<exists>s. data k = VStr s \<and> trim s = []))"
  shows "(\<exists>others doc'.
            set others \<subseteq> {str ''academy'', str ''story'', str ''team'', str ''position'',
                            str ''team-break-line'', str ''feadback'', str ''story-link''} \<and>
            doc' = withoutIds ((if blank then [str ''chart-container''] else []) @ others) doc \<and>
            pruneSections v data doc = Inr doc' \<and>
            (blank \<longrightarrow> getElementById (str ''chart-container'') doc' = None)) \<and>
         ((\<forall>k\<in>{str ''previousMonths'', str ''previousCourses'', str ''previousTrips'',
                str ''previousVolunteering'', str ''previousTasks''}. data k = VStr (str ''0'')) \<longrightarrow>
            \<not> blank)"
proof -
  let ?A = "if isBlankText (data (str ''leadershipAcademy'')) = Inr True then [str ''academy''] else []"
  let ?S = "if v = Part000 \<and> isBlankText (data (str ''storyText'')) = Inr True then [str ''story''] else []"
  let ?T = "if isBlankText (data (str ''team'')) = Inr True then elementsToRemove else []"
  let ?L = "if isBlankText (data (str ''storyLink'')) = Inr True then [str ''story-link''] else []"
  let ?C = "if blank then [str ''chart-container''] else []"
  let ?others = "?A @ ?S @ ?T @ ?L"
  have b: "hasEmptyPreviousData data = blank"
    unfolding assms(3) by (rule hasEmptyPreviousData_iff)
  have "pruneSections v data doc = Inr (withoutIds (?A @ ?S @ ?T @ ?L @ ?C) doc)"
    using pruneSections_result [OF assms(1,2)] unfolding b .
  moreover have "withoutIds (?A @ ?S @ ?T @ ?L @ ?C) doc = withoutIds (?C @ ?others) doc"
    by (rule withoutIds_cong_set) auto
  ultimately have p: "pruneSections v data doc = Inr (withoutIds (?C @ ?others) doc)"
    by simp
  have o: "set ?others \<subseteq> {str ''academy'', str ''story'', str ''team'', str ''position'',
                            str ''team-break-line'', str ''feadback'', str ''story-link''}"
    by (auto simp: elementsToRemove_def)
  have g: "blank \<longrightarrow> getElementById (str ''chart-container'') (withoutIds (?C @ ?others) doc) = None"
    by (auto intro: withoutIds_gone)
  have z: "(\<forall>k\<in>{str ''previousMonths'', str ''previousCourses'', str ''previousTrips'',
                str ''previousVolunteering'', str ''previousTasks''}. data k = VStr (str ''0'')) \<longrightarrow>
            \<not> blank"
    unfolding assms(3) using trim_zero by auto
  from o p g z show ?thesis by blast
qed

text \<open>
  The theorem at fields that are all \<open>"0"\<close> but for a white-space \<open>previousTrips\<close>: the
  chart container goes; with all fields \<open>"0"\<close> the document comes back unchanged.
\<close>

theorem chart_container_rule_witness:
  "blankPrevious (str ''previousTrips'') = VStr (str ''   '') \<and>
   getElementById (str ''chart-container'') sampleDoc \<noteq> None \<and>
   pruneSections IndexJs allZero sampleDoc = Inr sampleDoc \<and>
   (\<exists>others doc'.
      set others \<subseteq> {str ''academy'', str ''story'', str ''team'', str ''position'',
                      str ''team-break-line'', str ''feadback'', str ''story-link''} \<and>
      doc' = withoutIds ([str ''chart-container''] @ others) sampleDoc \<and>
      pruneSections IndexJs blankPrevious sampleDoc = Inr doc' \<and>
      getElementById (str ''chart-container'') doc' = None) \<and>
   (\<exists>others doc'.
      set others \<subseteq> {str ''academy'', str ''story'', str ''team'', str ''position'',
                      str ''team-break-line'', str ''feadback'', str ''story-link''} \<and>
      doc' = withoutIds others sampleDoc \<and>
      pruneSections IndexJs allZero sampleDoc = Inr doc')"
proof -
  have h1: "\<forall>k\<in>set (gatingFields IndexJs). isBlankText (blankPrevious k) \<noteq> Inl TypeError"
    "\<forall>k\<in>set (gatingFields IndexJs). isBlankText (allZero k) \<noteq> Inl TypeError"
    by (simp_all add: blankPrevious_def eval_defs)
  have h2: "\<forall>i\<in>set sectionIds. count_list (forest_ids sampleDoc) i \<le> 1"
    by (simp add: eval_more)
  have b: "True = (\<exists>k\<in>{str ''previousMonths'', str ''previousCourses'', str ''previousTrips'',
                       str ''previousVolunteering'', str ''previousTasks''}.
                    blankPrevious k = VUndefined \<or> blankPrevious k = VNull \<or>
                    (\<exists>s. blankPrevious k = VStr s \<and> trim s = []))"
    by (simp add: blankPrevious_def eval_defs)
  have z: "False = (\<exists>k\<in>{str ''previousMonths'', str ''previousCourses'', str ''previousTrips'',
                       str ''previousVolunteering'', str ''previousTasks''}.
                    allZero k = VUndefined \<or> allZero k = VNull \<or>
                    (\<exists>s. allZero k = VStr s \<and> trim s = []))"
    by (simp add: eval_defs)
  have o: "blankPrevious (str ''previousTrips'') = VStr (str ''   '')"
    "getElementById (str ''chart-container'') sampleDoc \<noteq> None"
    "pruneSections IndexJs allZero sampleDoc = Inr sampleDoc"
    by (simp_all add: blankPrevious_def eval_defs)
  have p: "\<exists>others doc'.
      set others \<subseteq> {str ''academy'', str ''story'', str ''team'', str ''position'',
                      str ''team-break-line'', str ''feadback'', str ''story-link''} \<and>
      doc' = withoutIds ([str ''chart-container''] @ others) sampleDoc \<and>
      pruneSections IndexJs blankPrevious sampleDoc = Inr doc' \<and>
      getElementById (str ''chart-container'') doc' = None"
    using chart_container_rule [OF h1(1) h2 b] by simp
  have q: "\<exists>others doc'.
      set others \<subseteq> {str ''academy'', str ''story'', str ''team'', str ''position'',
                      str ''team-break-line'', str ''feadback'', str ''story-link''} \<and>
      doc' = withoutIds others sampleDoc \<and>
      pruneSections IndexJs allZero sampleDoc = Inr doc'"
    using chart_container_rule [OF h1(2) h2 z] by simp
  show ?thesis
    using o p q by (intro conjI)
qed

text \<open>
  Claim C4 as stated fails where a blank test of a text field raises: with
  \<open>previousTrips\<close> holding null and \<open>leadershipAcademy\<close> the number 5 the callback ends in
  a TypeError and returns no document. And of two elements with the id \<open>chart-container\<close>
  only the first is removed.
\<close>

theorem chart_container_counterexample:
  "numericAcademy (str ''previousTrips'') = VNull \<and>
   numericAcademy (str ''leadershipAcademy'') = VNum 5 \<and>
   getElementById (str ''chart-container'') sampleDoc \<noteq> None \<and>
   pruneSections IndexJs numericAcademy sampleDoc = Inl TypeError \<and>
   pruneSections IndexJs blankPrevious twinDoc =
     Inr [Element (Some (str ''team'')) [], Element (Some (str ''story'')) [],
          Element (Some (str ''team'')) [], Element (Some (str ''story'')) [],
          Element (Some (str ''chart-container'')) []]"
  by (simp add: blankPrevious_def eval_more)

section \<open>Properties of the request handler\<close>

text \<open>
  Without \<open>template.html\<close> the handler never reaches the launch of the browser. When its
  reading of the token file does not throw, the request is answered with a client error
  status and an \<open>error\<close> message: status 400 with the message
  \<open>template.html file not found\<close> when the request passes the authentication check (test
  mode, or tokens at hand), otherwise the 401 of that check.
\<close>

lemma missing_template_no_launch:
  "template_html srv = None \<Longrightarrow> fst (uploadPdf v srv body) \<noteq> Launched html file"
  by (simp add: uploadPdf_def renderRequest_def split: sum.splits)

lemma missing_template_reply:
  assumes "template_html srv = None"
    and "authRequired v srv \<longrightarrow> (\<exists>tk. loadTokens srv = Inr tk)"
  shows "(\<exists>status payload msg.
            fst (uploadPdf v srv body) = Replied (Reply status payload) \<and>
            400 \<le> status \<and> status < 500 \<and> map_of payload (str ''error'') = Some (VStr msg)) \<and>
         (\<forall>html file. fst (uploadPdf v srv body) \<noteq> Launched html file) \<and>
         (\<not> authRequired v srv \<or> (\<exists>tk. loadTokens srv = Inr tk \<and> truthy tk) \<longrightarrow>
            fst (uploadPdf v srv body) =
              Replied (Reply 400 [(str ''error'', VStr (str ''template.html file not found''))]))"
proof -
  have r: "renderRequest v srv body =
      Replied (Reply 400 [(str ''error'', VStr (str ''template.html file not found''))])"
    using assms(1) by (simp add: renderRequest_def)
  show ?thesis
  proof (cases "authRequired v srv")
    case False
    then show ?thesis by (simp add: uploadPdf_def r)
  next
    case True
    with assms(2) obtain tk where tk: "loadTokens srv = Inr tk" by blast
    with True show ?thesis
      by (cases "truthy tk") (simp_all add: uploadPdf_def r)
  qed
qed

lemma missing_template_reply_example:
  "template_html sampleServer = None \<and> authRequired Part000 sampleServer \<and>
   loadTokens sampleServer = Inr (VObj (str ''[object Object]'')) \<and>
   fst (uploadPdf Part000 sampleServer noFields) =
     Replied (Reply 400 [(str ''error'', VStr (str ''template.html file not found''))])"
proof -
  have h1: "template_html sampleServer = None"
    by (simp add: sampleServer_def)
  have l: "loadTokens sampleServer = Inr (VObj (str ''[object Object]''))"
    by (simp add: sampleServer_def loadTokens_def)
  have a: "authRequired Part000 sampleServer"
    by (simp add: sampleServer_def authRequired_def)
  have h2: "authRequired Part000 sampleServer \<longrightarrow> (\<exists>tk. loadTokens sampleServer = Inr tk)"
    using l by simp
  show ?thesis
    using h1 a l missing_template_reply [OF h1 h2, of noFields] by simp
qed

text \<open>
  Claim C9. The claim holds in those runs only. The handler reads and parses \<open>tokens.json\<close> before
  its \<open>try\<close> block, where the start-up code guards the same parse with a \<open>catch\<close>. With
  no tokens cached, a token file that does not parse and no \<open>template.html\<close>, either copy
  of the handler ends in the uncaught SyntaxError: it sends no reply, neither the client
  error of the claim nor any other.
\<close>

theorem missing_template_corrupt_tokens:
  "template_html corruptServer = None \<and> tokens corruptServer = VNull \<and>
   tokens_json corruptServer = Some (Inl SyntaxError) \<and>
   uploadPdf IndexJs corruptServer noFields = (Uncaught SyntaxError, VNull) \<and>
   uploadPdf Part000 corruptServer noFields = (Uncaught SyntaxError, VNull)"
  by (simp add: corruptServer_def uploadPdf_def authRequired_def loadTokens_def)

end
